theory Spec2Isabelle
  imports Complex_Main "HOL-Library.Sublist"
begin

section \<open>Python values\<close>

text \<open>
  The configuration documents are whatever \<^verbatim>\<open>json.load\<close> returns: \<^verbatim>\<open>None\<close>, a bool,
  an int, a float, a str, a list or a dict with string keys. Strings are held as their
  UTF-8 bytes. A dict is an association list of its items, with distinct keys, read with
  \<open>map_of\<close>.
\<close>

datatype pyfloat = Finite rat | PosInf | NegInf | NaN

datatype pyval =
    PNone
  | PBool bool
  | PInt int
  | PFloat pyfloat
  | PStr string
  | PList "pyval list"
  | PDict "(string \<times> pyval) list"

datatype pyerr = AttributeError | TypeError | ValueError | IndexError

text \<open>Truth value testing, as \<^verbatim>\<open>if x:\<close> and \<^verbatim>\<open>bool(x)\<close> do it.\<close>

fun truthy :: "pyval \<Rightarrow> bool" where
  "truthy PNone = False"
| "truthy (PBool b) = b"
| "truthy (PInt i) = (i \<noteq> 0)"
| "truthy (PFloat f) = (f \<noteq> Finite 0)"
| "truthy (PStr s) = (s \<noteq> [])"
| "truthy (PList xs) = (xs \<noteq> [])"
| "truthy (PDict kvs) = (kvs \<noteq> [])"

text \<open>\<^verbatim>\<open>x.get(key, default)\<close>: only a dict has the method.\<close>

fun dict_get :: "pyval \<Rightarrow> string \<Rightarrow> pyval \<Rightarrow> pyerr + pyval" where
  "dict_get (PDict kvs) key dflt = Inr (case map_of kvs key of None \<Rightarrow> dflt | Some v \<Rightarrow> v)"
| "dict_get PNone key dflt = Inl AttributeError"
| "dict_get (PBool b) key dflt = Inl AttributeError"
| "dict_get (PInt i) key dflt = Inl AttributeError"
| "dict_get (PFloat f) key dflt = Inl AttributeError"
| "dict_get (PStr s) key dflt = Inl AttributeError"
| "dict_get (PList xs) key dflt = Inl AttributeError"

text \<open>\<^verbatim>\<open>list(x.keys())\<close>: only a dict has the method.\<close>

fun dict_keys :: "pyval \<Rightarrow> pyerr + string list" where
  "dict_keys (PDict kvs) = Inr (map fst kvs)"
| "dict_keys PNone = Inl AttributeError"
| "dict_keys (PBool b) = Inl AttributeError"
| "dict_keys (PInt i) = Inl AttributeError"
| "dict_keys (PFloat f) = Inl AttributeError"
| "dict_keys (PStr s) = Inl AttributeError"
| "dict_keys (PList xs) = Inl AttributeError"

text \<open>
  \<^verbatim>\<open>s in x\<close> for a string \<open>s\<close>: an element of a list, a key of a dict, a substring of a
  string; any other right operand is not iterable.
\<close>

fun str_in :: "string \<Rightarrow> pyval \<Rightarrow> pyerr + bool" where
  "str_in s (PList xs) = Inr (PStr s \<in> set xs)"
| "str_in s (PDict kvs) = Inr (s \<in> set (map fst kvs))"
| "str_in s (PStr t) = Inr (sublist s t)"
| "str_in s PNone = Inl TypeError"
| "str_in s (PBool b) = Inl TypeError"
| "str_in s (PInt i) = Inl TypeError"
| "str_in s (PFloat f) = Inl TypeError"

section \<open>Timestamps\<close>

record datetime =
  year :: nat
  month :: nat
  day :: nat
  hour :: nat
  minute :: nat
  second :: nat
  microsecond :: nat

definition digit :: "nat \<Rightarrow> char" where
  "digit n = ''0123456789'' ! (n mod 10)"

definition pad2 :: "nat \<Rightarrow> string" where
  "pad2 n = [digit (n div 10), digit n]"

definition pad4 :: "nat \<Rightarrow> string" where
  "pad4 n = [digit (n div 1000), digit (n div 100), digit (n div 10), digit n]"

definition pad6 :: "nat \<Rightarrow> string" where
  "pad6 n = [digit (n div 100000), digit (n div 10000), digit (n div 1000),
             digit (n div 100), digit (n div 10), digit n]"

text \<open>
  \<^verbatim>\<open>dt.strftime("%m-%d")\<close> and \<^verbatim>\<open>dt.strftime("%Y-%m-%d")\<close>, for a valid date. The
  year is printed with four digits; for a year below 1000 some C libraries print it without
  the leading zeros.
\<close>

definition strftime_m_d :: "datetime \<Rightarrow> string" where
  "strftime_m_d dt = pad2 (month dt) @ ''-'' @ pad2 (day dt)"

definition strftime_Y_m_d :: "datetime \<Rightarrow> string" where
  "strftime_Y_m_d dt = pad4 (year dt) @ ''-'' @ pad2 (month dt) @ ''-'' @ pad2 (day dt)"

definition strftime_H_M_S :: "datetime \<Rightarrow> string" where
  "strftime_H_M_S dt = pad2 (hour dt) @ '':'' @ pad2 (minute dt) @ '':'' @ pad2 (second dt)"

text \<open>\<^verbatim>\<open>dt.isoformat()\<close>: the fraction is printed only when it is not zero.\<close>

definition isoformat :: "datetime \<Rightarrow> string" where
  "isoformat dt = strftime_Y_m_d dt @ ''T'' @ strftime_H_M_S dt @
     (if microsecond dt \<noteq> 0 then ''.'' @ pad6 (microsecond dt) else [])"

text \<open>
  \<^verbatim>\<open>dt.weekday()\<close>, Monday is 0: the standard library computes it from the proleptic
  Gregorian ordinal of the date as \<^verbatim>\<open>(toordinal() + 6) % 7\<close>.
\<close>

definition is_leap :: "nat \<Rightarrow> bool" where
  "is_leap y = (y mod 4 = 0 \<and> (y mod 100 \<noteq> 0 \<or> y mod 400 = 0))"

definition days_before_year :: "nat \<Rightarrow> nat" where
  "days_before_year y = (y - 1) * 365 + (y - 1) div 4 - (y - 1) div 100 + (y - 1) div 400"

definition days_before_month :: "nat \<Rightarrow> nat \<Rightarrow> nat" where
  "days_before_month y m =
     [0, 0, 31, 59, 90, 120, 151, 181, 212, 243, 273, 304, 334] ! m
       + (if m > 2 \<and> is_leap y then 1 else 0)"

definition toordinal :: "datetime \<Rightarrow> nat" where
  "toordinal dt = days_before_year (year dt) + days_before_month (year dt) (month dt) + day dt"

definition weekday :: "datetime \<Rightarrow> nat" where
  "weekday dt = (toordinal dt + 6) mod 7"

section \<open>config\_loader: the configuration cache\<close>

text \<open>
  What \<^verbatim>\<open>_load_json_file\<close> finds under a file name of the configuration directory: no
  file, a file that cannot be read, a file that is not JSON, or the parsed document. Every
  failure is caught there and becomes \<^verbatim>\<open>None\<close>. One call of an operation sees one state of
  the files and one reading of the clock.
\<close>

datatype source = Missing | Unreadable | Malformed | Parsed pyval

type_synonym filesystem = "string \<Rightarrow> source"

definition load_json_file :: "filesystem \<Rightarrow> string \<Rightarrow> pyval" where
  "load_json_file fs filename =
     (case fs filename of
        Missing \<Rightarrow> PNone
      | Parsed data \<Rightarrow> data
      | Malformed \<Rightarrow> PNone
      | Unreadable \<Rightarrow> PNone)"

record config_cache =
  energy_profiles :: pyval
  cwu_schedule :: pyval
  system_config :: pyval
  user_corrections :: pyval
  last_load_time :: "string option"

definition initial_cache :: config_cache where
  "initial_cache = \<lparr>energy_profiles = PNone, cwu_schedule = PNone, system_config = PNone,
     user_corrections = PNone, last_load_time = None\<rparr>"

text \<open>
  \<^verbatim>\<open>reload_all_configs\<close>. The clock reading \<open>now\<close> is what \<^verbatim>\<open>datetime.now()\<close> returns
  at the end of the call. The result is the returned flag and the cache afterwards. The
  module calls it once when it is imported, on the initial cache.
\<close>

definition reload_all_configs :: "filesystem \<Rightarrow> datetime \<Rightarrow> config_cache \<Rightarrow> bool \<times> config_cache" where
  "reload_all_configs fs now cache =
     (let energy_data = load_json_file fs ''energy_profiles.json'';
          cwu_data = load_json_file fs ''cwu_schedule.json'';
          system_data = load_json_file fs ''system_config.json'';
          corrections_data = load_json_file fs ''user_corrections.json'';
          success = True;
          loaded_files = [];
          (cache, success, loaded_files) =
            (if truthy energy_data
             then (cache\<lparr>energy_profiles := energy_data\<rparr>, success,
                   loaded_files @ [''energy_profiles.json''])
             else (cache, False, loaded_files));
          (cache, success, loaded_files) =
            (if truthy cwu_data
             then (cache\<lparr>cwu_schedule := cwu_data\<rparr>, success,
                   loaded_files @ [''cwu_schedule.json''])
             else (cache, False, loaded_files));
          (cache, success, loaded_files) =
            (if truthy system_data
             then (cache\<lparr>system_config := system_data\<rparr>, success,
                   loaded_files @ [''system_config.json''])
             else (cache, False, loaded_files));
          (cache, success, loaded_files) =
            (if truthy corrections_data
             then (cache\<lparr>user_corrections := corrections_data\<rparr>, success,
                   loaded_files @ [''user_corrections.json''])
             else (cache, False, loaded_files));
          cache = (if loaded_files \<noteq> []
                   then cache\<lparr>last_load_time := Some (isoformat now)\<rparr>
                   else cache)
      in (success, cache))"

text \<open>
  The accessors reload first when their own slot is empty. \<^verbatim>\<open>get_energy_profiles\<close>
  takes an optional day type; with one it returns that profile only.
\<close>

definition get_energy_profiles ::
  "filesystem \<Rightarrow> datetime \<Rightarrow> string option \<Rightarrow> config_cache \<Rightarrow> (pyerr + pyval) \<times> config_cache" where
  "get_energy_profiles fs now day_type cache =
     (let cache = (if \<not> truthy (energy_profiles cache)
                   then snd (reload_all_configs fs now cache) else cache);
          data = energy_profiles cache
      in if \<not> truthy data then (Inr PNone, cache)
         else (case day_type of
                 None \<Rightarrow> (Inr data, cache)
               | Some key \<Rightarrow>
                   if key \<noteq> []
                   then (case dict_get data ''energy_profiles'' (PDict []) of
                           Inl e \<Rightarrow> (Inl e, cache)
                         | Inr profiles \<Rightarrow> (dict_get profiles key PNone, cache))
                   else (Inr data, cache)))"

definition get_cwu_schedule :: "filesystem \<Rightarrow> datetime \<Rightarrow> config_cache \<Rightarrow> pyval \<times> config_cache" where
  "get_cwu_schedule fs now cache =
     (let cache = (if \<not> truthy (cwu_schedule cache)
                   then snd (reload_all_configs fs now cache) else cache)
      in (cwu_schedule cache, cache))"

definition get_system_config :: "filesystem \<Rightarrow> datetime \<Rightarrow> config_cache \<Rightarrow> pyval \<times> config_cache" where
  "get_system_config fs now cache =
     (let cache = (if \<not> truthy (system_config cache)
                   then snd (reload_all_configs fs now cache) else cache)
      in (system_config cache, cache))"

definition get_user_corrections :: "filesystem \<Rightarrow> datetime \<Rightarrow> config_cache \<Rightarrow> pyval \<times> config_cache" where
  "get_user_corrections fs now cache =
     (let cache = (if \<not> truthy (user_corrections cache)
                   then snd (reload_all_configs fs now cache) else cache)
      in (user_corrections cache, cache))"

definition get_config_status :: "config_cache \<Rightarrow> pyval" where
  "get_config_status cache =
     PDict [(''last_load_time'',
             (case last_load_time cache of None \<Rightarrow> PNone | Some t \<Rightarrow> PStr t)),
            (''files_loaded'',
             PDict [(''energy_profiles'', PBool (energy_profiles cache \<noteq> PNone)),
                    (''cwu_schedule'', PBool (cwu_schedule cache \<noteq> PNone)),
                    (''system_config'', PBool (system_config cache \<noteq> PNone)),
                    (''user_corrections'', PBool (user_corrections cache \<noteq> PNone))])]"

section \<open>sze\_core: the system manager\<close>

text \<open>
  The attributes of a \<^verbatim>\<open>SystemManager\<close> object. The two flags are assigned late in
  \<^verbatim>\<open>__init__\<close>; until then the object has no such attribute, which is \<open>None\<close> here.
\<close>

record manager =
  system_status :: "(string \<times> pyval) list"
  config_data :: "(string \<times> pyval) list"
  last_update :: "datetime option"
  cwu_boiler_enabled :: "bool option"
  heaters_locked :: "bool option"

text \<open>The string literals of the source that are not ASCII, in UTF-8.\<close>

definition niedziela_swieto :: string where
  "niedziela_swieto = ''niedziela/'' @ [CHR 0xC5, CHR 0x9B] @ ''wi'' @ [CHR 0xC4, CHR 0x99] @ ''to''"

definition roboczy :: string where
  "roboczy = ''roboczy''"

definition sobota :: string where
  "sobota = ''sobota''"

definition WL :: string where
  "WL = ''W'' @ [CHR 0xC5, CHR 0x81]"

definition WYL :: string where
  "WYL = ''WY'' @ [CHR 0xC5, CHR 0x81]"

definition poniedzialek :: string where
  "poniedzialek = ''poniedzia'' @ [CHR 0xC5, CHR 0x82] @ ''ek''"

definition sroda :: string where
  "sroda = [CHR 0xC5, CHR 0x9B] @ ''roda''"

definition piatek :: string where
  "piatek = ''pi'' @ [CHR 0xC4, CHR 0x85] @ ''tek''"

text \<open>
  \<^verbatim>\<open>_load_config_data\<close>: the five entries are read through the accessors of the
  configuration cache, which may reload it; any exception in the body empties
  \<^verbatim>\<open>config_data\<close>. The logging line reads the keys of the profiles, which raises when
  the document or its \<^verbatim>\<open>energy_profiles\<close> entry is not a dict.
\<close>

definition load_config_data ::
  "filesystem \<Rightarrow> datetime \<Rightarrow> manager \<times> config_cache \<Rightarrow> manager \<times> config_cache" where
  "load_config_data fs now mc =
     (let (m, cache) = mc;
          (energy_result, cache) = get_energy_profiles fs now None cache
      in case energy_result of
           Inl e \<Rightarrow> (m\<lparr>config_data := []\<rparr>, cache)
         | Inr energy \<Rightarrow>
             (let (cwu, cache) = get_cwu_schedule fs now cache;
                  (sysconf, cache) = get_system_config fs now cache;
                  (corrections, cache) = get_user_corrections fs now cache;
                  m = m\<lparr>config_data :=
                         [(''energy_profiles'', energy),
                          (''cwu_schedule'', cwu),
                          (''system_config'', sysconf),
                          (''user_corrections'', corrections),
                          (''config_status'', get_config_status cache)]\<rparr>;
                  energy_profiles' =
                    (case map_of (config_data m) ''energy_profiles'' of
                       None \<Rightarrow> PDict [] | Some v \<Rightarrow> v);
                  logged =
                    (if truthy energy_profiles'
                     then (case dict_get energy_profiles' ''energy_profiles'' (PDict []) of
                             Inl e \<Rightarrow> Inl e
                           | Inr profiles \<Rightarrow> dict_keys profiles)
                     else Inr [])
              in case logged of
                   Inl e \<Rightarrow> (m\<lparr>config_data := []\<rparr>, cache)
                 | Inr keys \<Rightarrow> (m, cache)))"

text \<open>
  \<^verbatim>\<open>_get_day_type\<close>, first the two holiday lists (the values found under
  \<^verbatim>\<open>calendar\<close>, whatever their type), then the classification. The statements of the
  source after the \<^verbatim>\<open>if/elif/else\<close> are never reached: each branch returns.
\<close>

definition holiday_lists :: "manager \<Rightarrow> pyerr + pyval \<times> pyval" where
  "holiday_lists m =
     (let system_config' =
            (case map_of (config_data m) ''system_config'' of None \<Rightarrow> PDict [] | Some v \<Rightarrow> v)
      in case (if truthy system_config' then dict_get system_config' ''calendar'' (PDict [])
               else Inr (PDict [])) of
           Inl e \<Rightarrow> Inl e
         | Inr calendar_config \<Rightarrow>
             (case dict_get calendar_config ''fixed_holidays'' (PList []) of
                Inl e \<Rightarrow> Inl e
              | Inr fixed_holidays \<Rightarrow>
                  (case dict_get calendar_config ''movable_holidays'' (PList []) of
                     Inl e \<Rightarrow> Inl e
                   | Inr movable_holidays \<Rightarrow> Inr (fixed_holidays, movable_holidays))))"

definition get_day_type :: "manager \<Rightarrow> datetime \<Rightarrow> pyerr + string" where
  "get_day_type m dt =
     (case holiday_lists m of
        Inl e \<Rightarrow> Inl e
      | Inr (fixed_holidays, movable_holidays) \<Rightarrow>
          (let today_str = strftime_m_d dt;
               today_full = strftime_Y_m_d dt
           in case (case str_in today_str fixed_holidays of
                      Inl e \<Rightarrow> Inl e
                    | Inr found \<Rightarrow>
                        if found then Inr True else str_in today_full movable_holidays) of
                Inl e \<Rightarrow> Inl e
              | Inr holiday \<Rightarrow>
                  if holiday then Inr niedziela_swieto
                  else if weekday dt < 5 then Inr roboczy
                  else if weekday dt = 5 then Inr sobota
                  else Inr niedziela_swieto))"

text \<open>
  The methods that the class body binds and that take a timestamp. The \<^verbatim>\<open>def\<close>
  statements of \<^verbatim>\<open>_get_current_window\<close> and \<^verbatim>\<open>_get_current_tariff\<close> are indented
  one level deeper than the other methods: they stand inside the body of
  \<^verbatim>\<open>_get_day_type\<close>, behind its last \<^verbatim>\<open>return\<close>, and bind no attribute of the class.
  Looking either name up on \<^verbatim>\<open>self\<close> raises \<^verbatim>\<open>AttributeError\<close>.
\<close>

definition timestamp_methods :: "(string \<times> (manager \<Rightarrow> datetime \<Rightarrow> pyerr + pyval)) list" where
  "timestamp_methods = [(''_get_day_type'', \<lambda>m dt. map_sum id PStr (get_day_type m dt))]"

definition call_method :: "string \<Rightarrow> manager \<Rightarrow> datetime \<Rightarrow> pyerr + pyval" where
  "call_method name m dt =
     (case map_of timestamp_methods name of
        None \<Rightarrow> Inl AttributeError
      | Some f \<Rightarrow> f m dt)"

text \<open>
  \<^verbatim>\<open>s.replace(old, new)\<close> for a non-empty \<open>old\<close>: every occurrence, left to right,
  without overlap. The first argument counts the characters of a match still to skip.
\<close>

fun replace_from :: "nat \<Rightarrow> string \<Rightarrow> string \<Rightarrow> string \<Rightarrow> string" where
  "replace_from k old new [] = []"
| "replace_from (Suc k) old new (c # cs) = replace_from k old new cs"
| "replace_from 0 old new (c # cs) =
     (if prefix old (c # cs) then new @ replace_from (length old - 1) old new cs
      else c # replace_from 0 old new cs)"

definition str_replace :: "string \<Rightarrow> string \<Rightarrow> string \<Rightarrow> string" where
  "str_replace old new s = replace_from 0 old new s"

text \<open>\<^verbatim>\<open>now.strftime("%A %d %B %Y")\<close> in the C locale, for a valid date.\<close>

definition day_names :: "string list" where
  "day_names = [''Monday'', ''Tuesday'', ''Wednesday'', ''Thursday'', ''Friday'',
                ''Saturday'', ''Sunday'']"

definition month_names :: "string list" where
  "month_names = [''January'', ''February'', ''March'', ''April'', ''May'', ''June'', ''July'',
                  ''August'', ''September'', ''October'', ''November'', ''December'']"

definition strftime_A_d_B_Y :: "datetime \<Rightarrow> string" where
  "strftime_A_d_B_Y dt =
     day_names ! weekday dt @ '' '' @ pad2 (day dt) @ '' '' @ month_names ! (month dt - 1)
       @ '' '' @ pad4 (year dt)"

definition data_str :: "datetime \<Rightarrow> string" where
  "data_str now =
     str_replace ''Sunday'' ''niedziela''
       (str_replace ''Saturday'' ''sobota''
         (str_replace ''Friday'' piatek
           (str_replace ''Thursday'' ''czwartek''
             (str_replace ''Wednesday'' sroda
               (str_replace ''Tuesday'' ''wtorek''
                 (str_replace ''Monday'' poniedzialek (strftime_A_d_B_Y now)))))))"

text \<open>
  The dict display of \<^verbatim>\<open>_update_system_status\<close>, from the values of its entries that
  are computed. The two entries for the operating flags are literals.
\<close>

definition status_record ::
  "datetime \<Rightarrow> pyval \<Rightarrow> pyval \<Rightarrow> pyval \<Rightarrow> bool \<Rightarrow> string list \<Rightarrow> pyval \<Rightarrow> pyval
     \<Rightarrow> (string \<times> pyval) list" where
  "status_record now rodzaj_dnia okno_dobowe taryfa config_loaded profiles_available
       morning_watts evening_watts =
     [(''timestamp'', PStr (isoformat now)),
      (''data_str'', PStr (data_str now)),
      (''godzina'', PStr (strftime_H_M_S now)),
      (''rodzaj_dnia'', rodzaj_dnia),
      (''okno_dobowe'', okno_dobowe),
      (''taryfa'', taryfa),
      (''cwz_z_kotla'', PStr WL),
      (''grzalki_zablokowane'', PStr ''TAK''),
      (''system_active'', PBool True),
      (''last_update'', PStr (strftime_H_M_S now)),
      (''config_loaded'', PBool config_loaded),
      (''profiles_available'', PList (map PStr profiles_available)),
      (''boiler_morning_power_w'', morning_watts),
      (''boiler_evening_power_w'', evening_watts)]"

text \<open>
  The entries are evaluated in the order of the display, and the first exception ends
  the evaluation: the day type, then the window and the tariff, each a method looked up
  on \<^verbatim>\<open>self\<close>, then the entries read from the configuration.
\<close>

definition profiles_available :: "manager \<Rightarrow> pyerr + string list" where
  "profiles_available m =
     (if truthy (case map_of (config_data m) ''energy_profiles'' of None \<Rightarrow> PNone | Some v \<Rightarrow> v)
      then (case dict_get (case map_of (config_data m) ''energy_profiles'' of
                             None \<Rightarrow> PDict [] | Some v \<Rightarrow> v)
                   ''energy_profiles'' (PDict []) of
              Inl e \<Rightarrow> Inl e
            | Inr profiles \<Rightarrow> dict_keys profiles)
      else Inr [])"

definition status_display :: "datetime \<Rightarrow> manager \<Rightarrow> pyval \<Rightarrow> pyerr + (string \<times> pyval) list" where
  "status_display now m default_power =
     (case call_method ''_get_day_type'' m now of
        Inl e \<Rightarrow> Inl e
      | Inr rodzaj_dnia \<Rightarrow>
     (case call_method ''_get_current_window'' m now of
        Inl e \<Rightarrow> Inl e
      | Inr okno_dobowe \<Rightarrow>
     (case call_method ''_get_current_tariff'' m now of
        Inl e \<Rightarrow> Inl e
      | Inr taryfa \<Rightarrow>
     (let config_loaded =
            truthy (case map_of (config_data m) ''energy_profiles'' of
                      None \<Rightarrow> PNone | Some v \<Rightarrow> v)
      in case profiles_available m of
           Inl e \<Rightarrow> Inl e
         | Inr profiles \<Rightarrow>
        (case dict_get default_power ''morning_watts'' (PInt 0) of
           Inl e \<Rightarrow> Inl e
         | Inr morning_watts \<Rightarrow>
        (case dict_get default_power ''evening_watts'' (PInt 0) of
           Inl e \<Rightarrow> Inl e
         | Inr evening_watts \<Rightarrow>
             Inr (status_record now rodzaj_dnia okno_dobowe taryfa config_loaded profiles
                    morning_watts evening_watts)))))))"

text \<open>
  \<^verbatim>\<open>_update_system_status\<close>: the result is the exception raised, if any, and the object
  afterwards. The two attributes are assigned only when the display was evaluated.
\<close>

definition update_system_status :: "datetime \<Rightarrow> manager \<Rightarrow> (pyerr + unit) \<times> manager" where
  "update_system_status now m =
     (let system_config' =
            (case map_of (config_data m) ''system_config'' of None \<Rightarrow> PDict [] | Some v \<Rightarrow> v)
      in case (if truthy system_config' then dict_get system_config' ''boiler'' (PDict [])
               else Inr (PDict [])) of
           Inl e \<Rightarrow> (Inl e, m)
         | Inr boiler_config \<Rightarrow>
        (case (if truthy boiler_config
               then dict_get boiler_config ''default_total_power'' (PDict [])
               else Inr (PDict [])) of
           Inl e \<Rightarrow> (Inl e, m)
         | Inr default_power \<Rightarrow>
        (case status_display now m default_power of
           Inl e \<Rightarrow> (Inl e, m)
         | Inr status \<Rightarrow> (Inr (), m\<lparr>system_status := status, last_update := Some now\<rparr>))))"

text \<open>
  \<^verbatim>\<open>SystemManager()\<close>: the constructor returns the object, or raises and leaves the
  caller without one. The cache is the module-level one of \<^verbatim>\<open>config_loader\<close>.
\<close>

definition SystemManager_init ::
  "filesystem \<Rightarrow> datetime \<Rightarrow> config_cache \<Rightarrow> (pyerr + manager) \<times> config_cache" where
  "SystemManager_init fs now cache =
     (let m = \<lparr>system_status = [], config_data = [], last_update = None,
                cwu_boiler_enabled = None, heaters_locked = None\<rparr>;
          (m, cache) = load_config_data fs now (m, cache)
      in case update_system_status now m of
           (Inl e, m) \<Rightarrow> (Inl e, cache)
         | (Inr u, m) \<Rightarrow>
             (Inr (m\<lparr>cwu_boiler_enabled := Some True, heaters_locked := Some True\<rparr>), cache))"

definition refresh_data ::
  "filesystem \<Rightarrow> datetime \<Rightarrow> manager \<times> config_cache \<Rightarrow> (pyerr + unit) \<times> manager \<times> config_cache" where
  "refresh_data fs now mc =
     (let (m, cache) = load_config_data fs now mc;
          (result, m) = update_system_status now m
      in (result, m, cache))"

definition get_system_info :: "manager \<Rightarrow> (string \<times> pyval) list" where
  "get_system_info m = system_status m"

definition get_config_data :: "manager \<Rightarrow> (string \<times> pyval) list" where
  "get_config_data m = config_data m"

definition toggle_cwu_boiler ::
  "bool \<Rightarrow> datetime \<Rightarrow> manager \<Rightarrow> (pyerr + (string \<times> pyval) list) \<times> manager" where
  "toggle_cwu_boiler enabled now m =
     (let m = m\<lparr>cwu_boiler_enabled := Some enabled\<rparr>;
          m = (if enabled then m\<lparr>heaters_locked := Some True\<rparr> else m)
      in case update_system_status now m of
           (Inl e, m) \<Rightarrow> (Inl e, m)
         | (Inr u, m) \<Rightarrow>
             (Inr [(''status'', PStr ''success''),
                   (''cwz_z_kotla'', PStr (if enabled then WL else WYL))], m))"

subsection \<open>The text of the tariff rule\<close>

text \<open>
  Lines 120 to 142 of the source, the two nested \<^verbatim>\<open>def\<close> statements with the first
  lines of their bodies, are indented four columns too far; lines 144 to 170 stand at the
  depth of a method body, where they are unreachable statements of \<^verbatim>\<open>_get_day_type\<close>
  that read the unbound names \<^verbatim>\<open>hour\<close> and \<^verbatim>\<open>day_type\<close>. With the four columns
  removed, lines 139 to 170 are one method, \<^verbatim>\<open>_get_current_tariff\<close>. The class does not
  have this method; the definitions of this subsection record what its text computes.
\<close>

definition tansza :: string where
  "tansza = ''ta'' @ [CHR 0xC5, CHR 0x84] @ ''sza''"

definition drozsza :: string where
  "drozsza = ''dro'' @ [CHR 0xC5, CHR 0xBC] @ ''sza''"

text \<open>\<^verbatim>\<open>s.split(sep)\<close> for a separator of one character.\<close>

fun split_on :: "char \<Rightarrow> string \<Rightarrow> string list" where
  "split_on sep [] = [[]]"
| "split_on sep (c # cs) =
     (if c = sep then [] # split_on sep cs
      else (case split_on sep cs of
              [] \<Rightarrow> [[c]]
            | w # ws \<Rightarrow> (c # w) # ws))"

definition index :: "'a list \<Rightarrow> nat \<Rightarrow> pyerr + 'a" where
  "index xs i = (if i < length xs then Inr (xs ! i) else Inl IndexError)"

text \<open>
  \<^verbatim>\<open>int(s)\<close> for a string of ASCII characters: white space around, an optional sign,
  then decimal digits, where single underscores may stand between digits.
\<close>

definition is_space :: "char \<Rightarrow> bool" where
  "is_space c = (of_char c \<in> set [9, 10, 11, 12, 13, 28, 29, 30, 31, 32 :: nat])"

definition is_digit :: "char \<Rightarrow> bool" where
  "is_digit c = (48 \<le> (of_char c :: nat) \<and> (of_char c :: nat) \<le> 57)"

fun parse_digits :: "bool \<Rightarrow> int \<Rightarrow> string \<Rightarrow> int option" where
  "parse_digits need acc [] = (if need then None else Some acc)"
| "parse_digits need acc (c # cs) =
     (if is_digit c then parse_digits False (acc * 10 + (of_char c - 48)) cs
      else if c = CHR ''_'' \<and> \<not> need then parse_digits True acc cs
      else None)"

definition py_int :: "string \<Rightarrow> pyerr + int" where
  "py_int s =
     (case (case dropWhile is_space (rev (dropWhile is_space (rev s))) of
              [] \<Rightarrow> None
            | c # cs \<Rightarrow>
                if c = CHR ''-'' then map_option uminus (parse_digits True 0 cs)
                else if c = CHR ''+'' then parse_digits True 0 cs
                else parse_digits True 0 (c # cs)) of
        None \<Rightarrow> Inl ValueError
      | Some i \<Rightarrow> Inr i)"

text \<open>The body of the \<^verbatim>\<open>try\<close>: the two hours, then the test of the band.\<close>

definition hour_of_bound :: "string \<Rightarrow> nat \<Rightarrow> pyerr + int" where
  "hour_of_bound cheaper_night i =
     (case index (split_on CHR ''-'' cheaper_night) i of
        Inl e \<Rightarrow> Inl e
      | Inr bound \<Rightarrow>
          (case index (split_on CHR '':'' bound) 0 of
             Inl e \<Rightarrow> Inl e
           | Inr h \<Rightarrow> py_int h))"

definition in_cheaper_band :: "string \<Rightarrow> int \<Rightarrow> pyerr + bool" where
  "in_cheaper_band cheaper_night hour' =
     (case hour_of_bound cheaper_night 0 of
        Inl e \<Rightarrow> Inl e
      | Inr start_hour \<Rightarrow>
          (case hour_of_bound cheaper_night 1 of
             Inl e \<Rightarrow> Inl e
           | Inr end_hour \<Rightarrow>
               Inr (if start_hour > end_hour
                    then hour' \<ge> start_hour \<or> hour' < end_hour
                    else start_hour \<le> hour' \<and> hour' < end_hour)))"

text \<open>
  The method as dedented. Only \<^verbatim>\<open>ValueError\<close> and \<^verbatim>\<open>IndexError\<close> are caught; a
  configured value that is not a string has no \<^verbatim>\<open>split\<close>.
\<close>

definition get_current_tariff_dedented :: "manager \<Rightarrow> datetime \<Rightarrow> pyerr + string" where
  "get_current_tariff_dedented m dt =
     (case get_day_type m dt of
        Inl e \<Rightarrow> Inl e
      | Inr day_type \<Rightarrow>
          if day_type = niedziela_swieto then Inr tansza
          else
            (let system_config' =
                   (case map_of (config_data m) ''system_config'' of
                      None \<Rightarrow> PDict [] | Some v \<Rightarrow> v)
             in case (if truthy system_config'
                      then dict_get system_config' ''tariff_g12w'' (PDict [])
                      else Inr (PDict [])) of
                  Inl e \<Rightarrow> Inl e
                | Inr tariff_config \<Rightarrow>
                    (case dict_get tariff_config ''cheaper_night_hours'' (PStr ''22:00-06:00'') of
                       Inl e \<Rightarrow> Inl e
                     | Inr cheaper_night \<Rightarrow>
                         if truthy cheaper_night
                         then (case cheaper_night of
                                 PStr text \<Rightarrow>
                                   (case in_cheaper_band text (int (hour dt)) of
                                      Inl e \<Rightarrow> Inr drozsza
                                    | Inr cheap \<Rightarrow> Inr (if cheap then tansza else drozsza))
                               | _ \<Rightarrow> Inl AttributeError)
                         else Inr drozsza)))"

text \<open>\<^verbatim>\<open>calculate_balance\<close> is a skeleton that returns fixed figures and changes nothing.\<close>

definition calculate_balance :: "string \<Rightarrow> datetime \<Rightarrow> manager \<Rightarrow> (string \<times> pyval) list" where
  "calculate_balance window_type now m =
     [(''okno'', PStr window_type),
      (''bilans_kwh'', PFloat (Finite 0)),
      (''szacowana_produkcja_pv'', PFloat (Finite 0)),
      (''potrzebna_energia'', PFloat (Finite 0)),
      (''czas_obliczenia'', PStr (isoformat now)),
      (''status'', PStr ''szkiet funkcji - do implementacji''),
      (''zauwazenie'',
       PStr (''Funkcja u'' @ [CHR 0xC5, CHR 0xBC]
             @ ''ywa teraz danych z config_loader, a nie z Excela.''))]"

text \<open>
  The operations a caller has on a constructed manager, and the object and the cache
  after one of them, whether it returned or raised.
\<close>

datatype operation =
    Refresh_data filesystem datetime
  | Get_system_info
  | Get_config_data
  | Calculate_balance string datetime
  | Toggle_cwu_boiler bool datetime

fun perform :: "operation \<Rightarrow> manager \<times> config_cache \<Rightarrow> manager \<times> config_cache" where
  "perform (Refresh_data fs now) mc = snd (refresh_data fs now mc)"
| "perform Get_system_info mc = mc"
| "perform Get_config_data mc = mc"
| "perform (Calculate_balance window_type now) mc = mc"
| "perform (Toggle_cwu_boiler enabled now) (m, cache) =
     (snd (toggle_cwu_boiler enabled now m), cache)"

section \<open>Notions used in the statements\<close>

text \<open>
  A source loads without error when the file is there, can be read and parses. It loads
  a non-empty document when, moreover, the parsed value is true in Python's sense, which
  is what \<^verbatim>\<open>reload_all_configs\<close> tests before it stores the value.
\<close>

definition loads_without_error :: "filesystem \<Rightarrow> string \<Rightarrow> bool" where
  "loads_without_error fs filename =
     (case fs filename of Parsed data \<Rightarrow> True | Missing \<Rightarrow> False | Unreadable \<Rightarrow> False
      | Malformed \<Rightarrow> False)"

definition loads_nonempty :: "filesystem \<Rightarrow> string \<Rightarrow> bool" where
  "loads_nonempty fs filename =
     (case fs filename of Parsed data \<Rightarrow> truthy data | Missing \<Rightarrow> False | Unreadable \<Rightarrow> False
      | Malformed \<Rightarrow> False)"

definition some_loads_nonempty :: "filesystem \<Rightarrow> bool" where
  "some_loads_nonempty fs =
     (loads_nonempty fs ''energy_profiles.json'' \<or> loads_nonempty fs ''cwu_schedule.json'' \<or>
      loads_nonempty fs ''system_config.json'' \<or> loads_nonempty fs ''user_corrections.json'')"

text \<open>A sequence of reload calls, each with the files and the clock it finds.\<close>

fun run_reloads :: "(filesystem \<times> datetime) list \<Rightarrow> config_cache \<Rightarrow> config_cache" where
  "run_reloads [] cache = cache"
| "run_reloads ((fs, now) # calls) cache =
     run_reloads calls (snd (reload_all_configs fs now cache))"

text \<open>The system configuration has no calendar section, or there is no configuration.\<close>

definition no_calendar_section :: "manager \<Rightarrow> bool" where
  "no_calendar_section m =
     (case map_of (config_data m) ''system_config'' of
        None \<Rightarrow> True
      | Some (PDict kvs) \<Rightarrow> map_of kvs ''calendar'' = None
      | Some v \<Rightarrow> \<not> truthy v)"

section \<open>Concrete inputs\<close>

definition monday_new_year :: datetime where
  "monday_new_year = \<lparr>year = 2024, month = 1, day = 1, hour = 10, minute = 30, second = 0,
     microsecond = 0\<rparr>"

definition tuesday_23h :: datetime where
  "tuesday_23h = \<lparr>year = 2024, month = 1, day = 2, hour = 23, minute = 0, second = 0,
     microsecond = 0\<rparr>"

definition tuesday_noon :: datetime where
  "tuesday_noon = \<lparr>year = 2024, month = 1, day = 2, hour = 12, minute = 0, second = 0,
     microsecond = 0\<rparr>"

definition wednesday_8h :: datetime where
  "wednesday_8h = \<lparr>year = 2024, month = 1, day = 3, hour = 8, minute = 15, second = 0,
     microsecond = 0\<rparr>"

definition energy_doc :: pyval where
  "energy_doc = PDict [(''energy_profiles'',
     PDict [(''dzien_roboczy'', PDict [(''base_kwh'', PInt 12)]),
            (''sobota'', PDict [(''base_kwh'', PInt 14)])])]"

definition cwu_doc :: pyval where
  "cwu_doc = PDict [(''morning'', PStr ''05:30''), (''evening'', PStr ''18:00'')]"

definition corrections_doc :: pyval where
  "corrections_doc = PDict [(''losses_percent'', PInt 5)]"

definition system_doc :: "string \<Rightarrow> pyval" where
  "system_doc cheaper_night_hours =
     PDict [(''calendar'',
             PDict [(''fixed_holidays'', PList [PStr ''01-01'', PStr ''12-25'']),
                    (''movable_holidays'', PList [PStr ''2024-04-01''])]),
            (''tariff_g12w'', PDict [(''cheaper_night_hours'', PStr cheaper_night_hours)]),
            (''boiler'',
             PDict [(''default_total_power'',
                     PDict [(''morning_watts'', PInt 2000), (''evening_watts'', PInt 3000)])])]"

text \<open>File systems: all four documents present; all four present and empty; the user
  corrections missing; nothing there.\<close>

definition files_with :: "pyval \<Rightarrow> pyval \<Rightarrow> pyval \<Rightarrow> source \<Rightarrow> filesystem" where
  "files_with energy cwu sysconf corrections filename =
     (if filename = ''energy_profiles.json'' then Parsed energy
      else if filename = ''cwu_schedule.json'' then Parsed cwu
      else if filename = ''system_config.json'' then Parsed sysconf
      else if filename = ''user_corrections.json'' then corrections
      else Missing)"

definition all_files :: filesystem where
  "all_files = files_with energy_doc cwu_doc (system_doc ''22:00-06:00'') (Parsed corrections_doc)"

definition changed_files :: filesystem where
  "changed_files =
     files_with energy_doc cwu_doc (system_doc ''13:00-15:00'') (Parsed corrections_doc)"

definition empty_documents :: filesystem where
  "empty_documents = files_with (PDict []) (PDict []) (PDict []) (Parsed (PDict []))"

definition one_empty_document :: filesystem where
  "one_empty_document =
     files_with energy_doc (PDict []) (system_doc ''22:00-06:00'') (Parsed corrections_doc)"

definition corrections_missing :: filesystem where
  "corrections_missing = files_with energy_doc cwu_doc (system_doc ''22:00-06:00'') Missing"

definition no_files :: filesystem where
  "no_files filename = Missing"

text \<open>The cache after a full load, and manager objects holding a view of it.\<close>

definition loaded_cache :: config_cache where
  "loaded_cache = \<lparr>energy_profiles = energy_doc, cwu_schedule = cwu_doc,
     system_config = system_doc ''22:00-06:00'', user_corrections = corrections_doc,
     last_load_time = Some (isoformat monday_new_year)\<rparr>"

definition manager_with :: "pyval \<Rightarrow> manager" where
  "manager_with sysconf =
     \<lparr>system_status = [],
      config_data = [(''energy_profiles'', energy_doc), (''cwu_schedule'', cwu_doc),
                     (''system_config'', sysconf), (''user_corrections'', corrections_doc),
                     (''config_status'', get_config_status loaded_cache)],
      last_update = None, cwu_boiler_enabled = Some True, heaters_locked = Some True\<rparr>"

section \<open>Properties of the configuration cache\<close>

lemma truthy_load_json_file: "truthy (load_json_file fs f) = loads_nonempty fs f"
  by (simp add: load_json_file_def loads_nonempty_def split: source.splits)

lemma loads_nonempty_without_error: "loads_nonempty fs f \<Longrightarrow> loads_without_error fs f"
  by (simp add: loads_nonempty_def loads_without_error_def split: source.splits)

lemma reload_result:
  "fst (reload_all_configs fs now cache) =
     (loads_nonempty fs ''energy_profiles.json'' \<and> loads_nonempty fs ''cwu_schedule.json'' \<and>
      loads_nonempty fs ''system_config.json'' \<and> loads_nonempty fs ''user_corrections.json'')"
  by (simp add: reload_all_configs_def Let_def truthy_load_json_file)

lemma reload_energy_profiles:
  "energy_profiles (snd (reload_all_configs fs now cache)) =
     (if loads_nonempty fs ''energy_profiles.json'' then load_json_file fs ''energy_profiles.json''
      else energy_profiles cache)"
  by (simp add: reload_all_configs_def Let_def truthy_load_json_file)

lemma reload_cwu_schedule:
  "cwu_schedule (snd (reload_all_configs fs now cache)) =
     (if loads_nonempty fs ''cwu_schedule.json'' then load_json_file fs ''cwu_schedule.json''
      else cwu_schedule cache)"
  by (simp add: reload_all_configs_def Let_def truthy_load_json_file)

lemma reload_system_config:
  "system_config (snd (reload_all_configs fs now cache)) =
     (if loads_nonempty fs ''system_config.json'' then load_json_file fs ''system_config.json''
      else system_config cache)"
  by (simp add: reload_all_configs_def Let_def truthy_load_json_file)

lemma reload_user_corrections:
  "user_corrections (snd (reload_all_configs fs now cache)) =
     (if loads_nonempty fs ''user_corrections.json'' then load_json_file fs ''user_corrections.json''
      else user_corrections cache)"
  by (simp add: reload_all_configs_def Let_def truthy_load_json_file)

lemma reload_last_load_time:
  "last_load_time (snd (reload_all_configs fs now cache)) =
     (if some_loads_nonempty fs then Some (isoformat now) else last_load_time cache)"
  by (simp add: reload_all_configs_def Let_def truthy_load_json_file some_loads_nonempty_def)

lemma reload_nothing_loaded:
  "\<not> some_loads_nonempty fs \<Longrightarrow> snd (reload_all_configs fs now cache) = cache"
  by (simp add: reload_all_configs_def Let_def truthy_load_json_file some_loads_nonempty_def)

lemma accessor_energy_cached:
  "truthy (energy_profiles cache) \<Longrightarrow>
     get_energy_profiles fs now None cache = (Inr (energy_profiles cache), cache)"
  by (simp add: get_energy_profiles_def Let_def)

lemma accessor_cwu_cached:
  "truthy (cwu_schedule cache) \<Longrightarrow> get_cwu_schedule fs now cache = (cwu_schedule cache, cache)"
  by (simp add: get_cwu_schedule_def Let_def)

lemma accessor_system_cached:
  "truthy (system_config cache) \<Longrightarrow> get_system_config fs now cache = (system_config cache, cache)"
  by (simp add: get_system_config_def Let_def)

lemma accessor_corrections_cached:
  "truthy (user_corrections cache) \<Longrightarrow>
     get_user_corrections fs now cache = (user_corrections cache, cache)"
  by (simp add: get_user_corrections_def Let_def)

lemma run_reloads_last_load_time:
  "last_load_time (run_reloads calls cache) \<noteq> None \<longleftrightarrow>
     last_load_time cache \<noteq> None \<or> (\<exists>(fs, now) \<in> set calls. some_loads_nonempty fs)"
proof (induction calls arbitrary: cache)
  case Nil
  then show ?case by simp
next
  case (Cons call calls)
  obtain fs now where call: "call = (fs, now)" by (cases call)
  show ?case
    unfolding call using Cons.IH [of "snd (reload_all_configs fs now cache)"]
    by (auto simp: reload_last_load_time)
qed

lemma files_eval:
  "files_with a b c d ''energy_profiles.json'' = Parsed a"
  "files_with a b c d ''cwu_schedule.json'' = Parsed b"
  "files_with a b c d ''system_config.json'' = Parsed c"
  "files_with a b c d ''user_corrections.json'' = d"
  by (simp_all add: files_with_def)

text \<open>
  Claim C4, as stated: \<^verbatim>\<open>reload_all_configs\<close> returns true exactly when all four
  documents load without error in that call. This fails when a source is readable and
  parses to an empty document: with four files that each hold \<^verbatim>\<open>{}\<close> every load is
  without error and the call returns false.
\<close>

theorem reload_all_configs_empty_document_counterexample:
  "loads_without_error empty_documents ''energy_profiles.json'' \<and>
   loads_without_error empty_documents ''cwu_schedule.json'' \<and>
   loads_without_error empty_documents ''system_config.json'' \<and>
   loads_without_error empty_documents ''user_corrections.json'' \<and>
   fst (reload_all_configs empty_documents tuesday_noon initial_cache) = False"
  by (simp add: reload_result loads_without_error_def loads_nonempty_def empty_documents_def
      files_eval)

text \<open>
  Claim C4, amended: \<^verbatim>\<open>reload_all_configs\<close> returns true exactly when each of the four
  sources is readable, parses, and yields a non-empty document in that call (a value that
  is true in Python's sense); it returns false otherwise, whatever the other documents did.
\<close>

theorem reload_all_configs_returns:
  "fst (reload_all_configs fs now cache) =
     (loads_nonempty fs ''energy_profiles.json'' \<and> loads_nonempty fs ''cwu_schedule.json'' \<and>
      loads_nonempty fs ''system_config.json'' \<and> loads_nonempty fs ''user_corrections.json'')"
  by (rule reload_result)

text \<open>
  Claim C5, as stated: a document whose source is unreadable or does not parse keeps its
  cached value, and a document that did load is updated. The second half fails for a source
  that loads an empty document: the schedule file parses to \<^verbatim>\<open>{}\<close>, and the cache
  keeps the schedule it had.
\<close>

theorem reload_all_configs_keeps_stale_counterexample:
  "loads_without_error one_empty_document ''cwu_schedule.json'' \<and>
   load_json_file one_empty_document ''cwu_schedule.json'' = PDict [] \<and>
   cwu_schedule (snd (reload_all_configs one_empty_document tuesday_noon loaded_cache)) = cwu_doc \<and>
   cwu_doc \<noteq> PDict []"
  by (simp add: reload_cwu_schedule loads_without_error_def loads_nonempty_def
      one_empty_document_def files_eval load_json_file_def loaded_cache_def cwu_doc_def)

text \<open>
  Claim C5, amended: for each of the four documents independently, a reload stores the
  document when its source is readable, parses and yields a non-empty value, and only then;
  in every other case (unreadable, not parsable, or empty) the cached value is exactly what
  it was before the call. A document stored by the call is what its accessor returns
  afterwards, whatever the files then hold, and the accessor leaves the cache as it is.
\<close>

theorem reload_all_configs_frame:
  "energy_profiles (snd (reload_all_configs fs now cache)) =
     (if loads_nonempty fs ''energy_profiles.json'' then load_json_file fs ''energy_profiles.json''
      else energy_profiles cache) \<and>
   cwu_schedule (snd (reload_all_configs fs now cache)) =
     (if loads_nonempty fs ''cwu_schedule.json'' then load_json_file fs ''cwu_schedule.json''
      else cwu_schedule cache) \<and>
   system_config (snd (reload_all_configs fs now cache)) =
     (if loads_nonempty fs ''system_config.json'' then load_json_file fs ''system_config.json''
      else system_config cache) \<and>
   user_corrections (snd (reload_all_configs fs now cache)) =
     (if loads_nonempty fs ''user_corrections.json'' then load_json_file fs ''user_corrections.json''
      else user_corrections cache) \<and>
   (loads_nonempty fs ''energy_profiles.json'' \<longrightarrow>
      get_energy_profiles fs' now' None (snd (reload_all_configs fs now cache)) =
        (Inr (load_json_file fs ''energy_profiles.json''), snd (reload_all_configs fs now cache))) \<and>
   (loads_nonempty fs ''cwu_schedule.json'' \<longrightarrow>
      get_cwu_schedule fs' now' (snd (reload_all_configs fs now cache)) =
        (load_json_file fs ''cwu_schedule.json'', snd (reload_all_configs fs now cache))) \<and>
   (loads_nonempty fs ''system_config.json'' \<longrightarrow>
      get_system_config fs' now' (snd (reload_all_configs fs now cache)) =
        (load_json_file fs ''system_config.json'', snd (reload_all_configs fs now cache))) \<and>
   (loads_nonempty fs ''user_corrections.json'' \<longrightarrow>
      get_user_corrections fs' now' (snd (reload_all_configs fs now cache)) =
        (load_json_file fs ''user_corrections.json'', snd (reload_all_configs fs now cache)))"
proof -
  let ?c = "snd (reload_all_configs fs now cache)"
  have e: "loads_nonempty fs ''energy_profiles.json'' \<Longrightarrow> truthy (energy_profiles ?c)"
    by (simp add: reload_energy_profiles truthy_load_json_file)
  have w: "loads_nonempty fs ''cwu_schedule.json'' \<Longrightarrow> truthy (cwu_schedule ?c)"
    by (simp add: reload_cwu_schedule truthy_load_json_file)
  have s: "loads_nonempty fs ''system_config.json'' \<Longrightarrow> truthy (system_config ?c)"
    by (simp add: reload_system_config truthy_load_json_file)
  have u: "loads_nonempty fs ''user_corrections.json'' \<Longrightarrow> truthy (user_corrections ?c)"
    by (simp add: reload_user_corrections truthy_load_json_file)
  show ?thesis
    using accessor_energy_cached [OF e, of fs' now'] accessor_cwu_cached [OF w, of fs' now']
      accessor_system_cached [OF s, of fs' now'] accessor_corrections_cached [OF u, of fs' now']
    by (simp add: reload_energy_profiles reload_cwu_schedule reload_system_config
        reload_user_corrections)
qed


lemma reload_all_files: "snd (reload_all_configs all_files monday_new_year initial_cache) = loaded_cache"
  by (simp add: reload_all_configs_def Let_def all_files_def files_eval load_json_file_def
      initial_cache_def loaded_cache_def energy_doc_def cwu_doc_def system_doc_def
      corrections_doc_def)

lemma all_files_nonempty:
  "loads_nonempty all_files ''energy_profiles.json''"
  "loads_nonempty all_files ''cwu_schedule.json''"
  "loads_nonempty all_files ''system_config.json''"
  "loads_nonempty all_files ''user_corrections.json''"
  by (simp_all add: loads_nonempty_def all_files_def files_eval energy_doc_def cwu_doc_def
      system_doc_def corrections_doc_def)

lemma all_files_documents:
  "load_json_file all_files ''energy_profiles.json'' = energy_doc"
  "load_json_file all_files ''cwu_schedule.json'' = cwu_doc"
  "load_json_file all_files ''system_config.json'' = system_doc ''22:00-06:00''"
  "load_json_file all_files ''user_corrections.json'' = corrections_doc"
  by (simp_all add: load_json_file_def all_files_def files_eval)

theorem reload_all_configs_frame_witness:
  "loads_nonempty all_files ''energy_profiles.json'' \<and>
   loads_nonempty all_files ''cwu_schedule.json'' \<and>
   loads_nonempty all_files ''system_config.json'' \<and>
   loads_nonempty all_files ''user_corrections.json'' \<and>
   get_energy_profiles no_files tuesday_noon None
     (snd (reload_all_configs all_files monday_new_year initial_cache)) = (Inr energy_doc, loaded_cache) \<and>
   get_cwu_schedule no_files tuesday_noon
     (snd (reload_all_configs all_files monday_new_year initial_cache)) = (cwu_doc, loaded_cache) \<and>
   get_system_config no_files tuesday_noon
     (snd (reload_all_configs all_files monday_new_year initial_cache)) =
       (system_doc ''22:00-06:00'', loaded_cache) \<and>
   get_user_corrections no_files tuesday_noon
     (snd (reload_all_configs all_files monday_new_year initial_cache)) =
       (corrections_doc, loaded_cache)"
  using reload_all_configs_frame [of all_files monday_new_year initial_cache no_files tuesday_noon]
  by (simp add: all_files_nonempty all_files_documents reload_all_files)

text \<open>
  Claim C6, as stated: \<^verbatim>\<open>last_load_time\<close> is set exactly when some document has loaded
  successfully since process start. With a source that is readable and parses to
  \<^verbatim>\<open>{}\<close> a document has loaded without error and \<^verbatim>\<open>last_load_time\<close> is still unset.
\<close>

theorem last_load_time_empty_documents_counterexample:
  "loads_without_error empty_documents ''energy_profiles.json'' \<and>
   last_load_time (run_reloads [(empty_documents, tuesday_noon)] initial_cache) = None"
  by (simp add: reload_last_load_time some_loads_nonempty_def loads_without_error_def
      loads_nonempty_def empty_documents_def files_eval initial_cache_def)

text \<open>
  Claim C6, amended: after any sequence of reload calls on the initially empty cache,
  \<^verbatim>\<open>last_load_time\<close> is set exactly when, in one of the calls, some document loaded with
  a non-empty value; a reload in which some document loads with a non-empty value sets
  \<^verbatim>\<open>last_load_time\<close> to the current timestamp, and a reload in which none does leaves it
  as it was.
\<close>

theorem last_load_time_invariant:
  "(last_load_time (run_reloads calls initial_cache) \<noteq> None \<longleftrightarrow>
      (\<exists>(fs, now) \<in> set calls. some_loads_nonempty fs)) \<and>
   (some_loads_nonempty fs \<longrightarrow>
      last_load_time (snd (reload_all_configs fs now cache)) = Some (isoformat now)) \<and>
   (\<not> some_loads_nonempty fs \<longrightarrow>
      last_load_time (snd (reload_all_configs fs now cache)) = last_load_time cache)"
proof -
  have "last_load_time initial_cache = None"
    by (simp add: initial_cache_def)
  with run_reloads_last_load_time [of calls initial_cache] show ?thesis
    by (simp add: reload_last_load_time)
qed


lemma no_files_load_nothing: "\<not> some_loads_nonempty no_files"
  by (simp add: some_loads_nonempty_def loads_nonempty_def no_files_def)

lemma corrections_missing_loads: "some_loads_nonempty corrections_missing"
  by (simp add: some_loads_nonempty_def loads_nonempty_def corrections_missing_def files_eval
      energy_doc_def)

theorem last_load_time_invariant_witness:
  "some_loads_nonempty corrections_missing \<and>
   \<not> some_loads_nonempty no_files \<and>
   last_load_time (run_reloads [(no_files, monday_new_year), (corrections_missing, tuesday_noon)]
     initial_cache) \<noteq> None \<and>
   last_load_time (snd (reload_all_configs corrections_missing tuesday_noon initial_cache)) =
     Some (isoformat tuesday_noon) \<and>
   last_load_time (snd (reload_all_configs no_files tuesday_noon loaded_cache)) =
     last_load_time loaded_cache"
  using last_load_time_invariant [of "[(no_files, monday_new_year), (corrections_missing, tuesday_noon)]"
      corrections_missing tuesday_noon initial_cache]
    last_load_time_invariant [of "[]" no_files tuesday_noon loaded_cache]
  by (simp add: no_files_load_nothing corrections_missing_loads)

section \<open>Properties of the day type\<close>

lemma day_types_distinct:
  "roboczy \<noteq> sobota" "roboczy \<noteq> niedziela_swieto" "sobota \<noteq> niedziela_swieto"
  by (simp_all add: roboczy_def sobota_def niedziela_swieto_def)

lemma weekday_range: "weekday dt \<le> 6"
  by (simp add: weekday_def)

lemma get_day_type_of_lists:
  "holiday_lists m = Inr (PList fixed_holidays, PList movable_holidays) \<Longrightarrow>
     get_day_type m dt =
       Inr (if PStr (strftime_m_d dt) \<in> set fixed_holidays \<or>
               PStr (strftime_Y_m_d dt) \<in> set movable_holidays
            then niedziela_swieto
            else if weekday dt \<le> 4 then roboczy
            else if weekday dt = 5 then sobota
            else niedziela_swieto)"
  by (auto simp: get_day_type_def Let_def)

lemma holiday_lists_configured:
  assumes "map_of (config_data m) ''system_config'' = Some (PDict sysconf)"
    and "map_of sysconf ''calendar'' = Some (PDict calendar)"
  shows "holiday_lists m =
     Inr (case map_of calendar ''fixed_holidays'' of None \<Rightarrow> PList [] | Some v \<Rightarrow> v,
          case map_of calendar ''movable_holidays'' of None \<Rightarrow> PList [] | Some v \<Rightarrow> v)"
proof -
  from assms(2) have "sysconf \<noteq> []" by auto
  with assms show ?thesis
    by (simp add: holiday_lists_def)
qed

lemma holiday_lists_absent:
  "no_calendar_section m \<Longrightarrow> holiday_lists m = Inr (PList [], PList [])"
  by (auto simp: no_calendar_section_def holiday_lists_def
      split: option.splits pyval.splits)

text \<open>
  Claim C1: \<^verbatim>\<open>_get_day_type\<close> returns the Sunday-or-holiday type whenever the month
  and day of the timestamp are in the list of fixed holidays or its full date is in the list
  of movable holidays, whatever the weekday; otherwise it returns the workday type for
  Monday to Friday (weekday 0 to 4), the Saturday type for weekday 5 and the
  Sunday-or-holiday type for weekday 6. The two lists are the values of
  \<^verbatim>\<open>fixed_holidays\<close> and \<^verbatim>\<open>movable_holidays\<close> of the calendar section of a system
  configuration that is a dict, empty where a key is absent; without a calendar section, or
  without a system configuration, both lists are empty and no error is raised.
\<close>

theorem get_day_type_classification:
  "(holiday_lists m = Inr (PList fixed_holidays, PList movable_holidays) \<longrightarrow>
      get_day_type m dt =
        Inr (if PStr (strftime_m_d dt) \<in> set fixed_holidays \<or>
                PStr (strftime_Y_m_d dt) \<in> set movable_holidays
             then niedziela_swieto
             else if weekday dt \<le> 4 then roboczy
             else if weekday dt = 5 then sobota
             else niedziela_swieto)) \<and>
   weekday dt \<le> 6 \<and>
   (map_of (config_data m) ''system_config'' = Some (PDict sysconf) \<and>
    map_of sysconf ''calendar'' = Some (PDict calendar) \<longrightarrow>
      holiday_lists m =
        Inr (case map_of calendar ''fixed_holidays'' of None \<Rightarrow> PList [] | Some v \<Rightarrow> v,
             case map_of calendar ''movable_holidays'' of None \<Rightarrow> PList [] | Some v \<Rightarrow> v)) \<and>
   (no_calendar_section m \<longrightarrow> holiday_lists m = Inr (PList [], PList []))"
  using get_day_type_of_lists [of m fixed_holidays movable_holidays dt]
    holiday_lists_configured [of m sysconf calendar] holiday_lists_absent [of m]
    weekday_range [of dt]
  by blast

lemma weekday_examples:
  "weekday monday_new_year = 0" "weekday tuesday_23h = 1" "weekday tuesday_noon = 1"
  by (simp_all add: weekday_def toordinal_def days_before_year_def days_before_month_def
      is_leap_def monday_new_year_def tuesday_23h_def tuesday_noon_def)

lemma strftime_examples:
  "strftime_m_d monday_new_year = ''01-01''"
  "strftime_Y_m_d monday_new_year = ''2024-01-01''"
  "strftime_m_d tuesday_noon = ''01-02''"
  "strftime_Y_m_d tuesday_noon = ''2024-01-02''"
  "strftime_m_d tuesday_23h = ''01-02''"
  "strftime_Y_m_d tuesday_23h = ''2024-01-02''"
  by (simp_all add: strftime_m_d_def strftime_Y_m_d_def pad2_def pad4_def digit_def
      monday_new_year_def tuesday_noon_def tuesday_23h_def)

lemma holiday_lists_example:
  "holiday_lists (manager_with (system_doc t)) =
     Inr (PList [PStr ''01-01'', PStr ''12-25''], PList [PStr ''2024-04-01''])"
  by (simp add: holiday_lists_def manager_with_def system_doc_def)

theorem get_day_type_classification_witness:
  "holiday_lists (manager_with (system_doc ''22:00-06:00'')) =
     Inr (PList [PStr ''01-01'', PStr ''12-25''], PList [PStr ''2024-04-01'']) \<and>
   weekday monday_new_year = 0 \<and>
   get_day_type (manager_with (system_doc ''22:00-06:00'')) monday_new_year = Inr niedziela_swieto \<and>
   get_day_type (manager_with (system_doc ''22:00-06:00'')) tuesday_noon = Inr roboczy \<and>
   no_calendar_section (manager_with PNone) \<and>
   holiday_lists (manager_with PNone) = Inr (PList [], PList [])"
proof -
  let ?m = "manager_with (system_doc ''22:00-06:00'')"
  let ?fixed = "[PStr ''01-01'', PStr ''12-25'']"
  let ?movable = "[PStr ''2024-04-01'']"
  let ?calendar = "[(''fixed_holidays'', PList ?fixed), (''movable_holidays'', PList ?movable)]"
  let ?sysconf = "[(''calendar'', PDict ?calendar),
      (''tariff_g12w'', PDict [(''cheaper_night_hours'', PStr ''22:00-06:00'')]),
      (''boiler'', PDict [(''default_total_power'',
         PDict [(''morning_watts'', PInt 2000), (''evening_watts'', PInt 3000)])])]"
  have config: "map_of (config_data ?m) ''system_config'' = Some (PDict ?sysconf)"
    by (simp add: manager_with_def system_doc_def)
  have calendar: "map_of ?sysconf ''calendar'' = Some (PDict ?calendar)"
    by simp
  from config calendar
    get_day_type_classification [of ?m ?fixed ?movable monday_new_year ?sysconf ?calendar]
  have lists: "holiday_lists ?m = Inr (PList ?fixed, PList ?movable)"
    by simp
  have absent: "no_calendar_section (manager_with PNone)"
    by (simp add: no_calendar_section_def manager_with_def)
  from lists get_day_type_classification [of ?m ?fixed ?movable monday_new_year]
  have monday: "get_day_type ?m monday_new_year = Inr niedziela_swieto"
    by (simp add: strftime_examples)
  from lists get_day_type_classification [of ?m ?fixed ?movable tuesday_noon]
  have tuesday: "get_day_type ?m tuesday_noon = Inr roboczy"
    by (simp add: strftime_examples weekday_examples)
  from absent get_day_type_classification [of "manager_with PNone"]
  have "holiday_lists (manager_with PNone) = Inr (PList [], PList [])"
    by simp
  with lists absent monday tuesday show ?thesis
    by (simp add: weekday_examples)
qed

section \<open>The manager as the class defines it\<close>

text \<open>
  The status display calls two methods the class does not have, so it never evaluates:
  \<^verbatim>\<open>_update_system_status\<close> raises for every object and every timestamp, and with it
  the constructor, the refresh and the toggle, which all call it.
\<close>

lemma unbound_methods:
  "call_method ''_get_current_window'' m dt = Inl AttributeError"
  "call_method ''_get_current_tariff'' m dt = Inl AttributeError"
  by (simp_all add: call_method_def timestamp_methods_def)

lemma status_display_never_returns: "status_display now m default_power \<noteq> Inr status"
  by (simp add: status_display_def unbound_methods split: sum.splits)

lemma update_system_status_raises: "\<exists>e. update_system_status now m = (Inl e, m)"
  by (auto simp: update_system_status_def Let_def status_display_never_returns
      split: sum.splits)

lemma toggle_cwu_boiler_state:
  "snd (toggle_cwu_boiler enabled now m) =
     m\<lparr>cwu_boiler_enabled := Some enabled,
       heaters_locked := (if enabled then Some True else heaters_locked m)\<rparr>"
proof -
  let ?m = "m\<lparr>cwu_boiler_enabled := Some enabled,
       heaters_locked := (if enabled then Some True else heaters_locked m)\<rparr>"
  obtain e where "update_system_status now ?m = (Inl e, ?m)"
    using update_system_status_raises by blast
  then show ?thesis
    by (cases enabled) (simp_all add: toggle_cwu_boiler_def Let_def)
qed

lemma toggle_cwu_boiler_result: "\<exists>e. fst (toggle_cwu_boiler enabled now m) = Inl e"
proof -
  let ?m = "m\<lparr>cwu_boiler_enabled := Some enabled,
       heaters_locked := (if enabled then Some True else heaters_locked m)\<rparr>"
  obtain e where "update_system_status now ?m = (Inl e, ?m)"
    using update_system_status_raises by blast
  then show ?thesis
    by (cases enabled) (simp_all add: toggle_cwu_boiler_def Let_def)
qed

lemma toggle_true_locks: "heaters_locked (snd (toggle_cwu_boiler True now m)) = Some True"
  by (simp add: toggle_cwu_boiler_state)

lemma toggle_false_keeps_lock:
  "heaters_locked (snd (toggle_cwu_boiler False now m)) = heaters_locked m"
  by (simp add: toggle_cwu_boiler_state)

lemma load_config_data_flags:
  "heaters_locked (fst (load_config_data fs now (m, cache))) = heaters_locked m \<and>
   cwu_boiler_enabled (fst (load_config_data fs now (m, cache))) = cwu_boiler_enabled m \<and>
   system_status (fst (load_config_data fs now (m, cache))) = system_status m"
  by (simp add: load_config_data_def Let_def split: prod.splits sum.splits)

lemma refresh_data_flags:
  "heaters_locked (fst (snd (refresh_data fs now (m, cache)))) = heaters_locked m"
proof -
  obtain m' cache' where l: "load_config_data fs now (m, cache) = (m', cache')"
    by (cases "load_config_data fs now (m, cache)")
  obtain e where "update_system_status now m' = (Inl e, m')"
    using update_system_status_raises by blast
  with l load_config_data_flags [of fs now m cache] show ?thesis
    by (simp add: refresh_data_def)
qed

lemma perform_keeps_lock:
  "heaters_locked (fst mc) = Some True \<Longrightarrow> heaters_locked (fst (perform op mc)) = Some True"
proof (cases op)
  case (Refresh_data fs now)
  assume "heaters_locked (fst mc) = Some True"
  with Refresh_data refresh_data_flags [of fs now "fst mc" "snd mc"] show ?thesis by simp
next
  case (Toggle_cwu_boiler enabled now)
  assume "heaters_locked (fst mc) = Some True"
  with Toggle_cwu_boiler show ?thesis
    by (cases mc) (simp add: toggle_cwu_boiler_state)
qed simp_all

lemma perform_all_keeps_lock:
  "heaters_locked (fst mc) = Some True \<Longrightarrow> heaters_locked (fst (fold perform ops mc)) = Some True"
  by (induction ops arbitrary: mc) (simp_all add: perform_keeps_lock)

lemma refresh_data_raises: "\<exists>e. fst (refresh_data fs now mc) = Inl e"
proof -
  obtain m' cache' where l: "load_config_data fs now mc = (m', cache')"
    by (cases "load_config_data fs now mc")
  obtain e where "update_system_status now m' = (Inl e, m')"
    using update_system_status_raises by blast
  with l show ?thesis
    by (simp add: refresh_data_def)
qed

lemma SystemManager_init_raises: "\<exists>e. fst (SystemManager_init fs now cache) = Inl e"
proof -
  let ?m = "\<lparr>system_status = [], config_data = [], last_update = None,
                cwu_boiler_enabled = None, heaters_locked = None\<rparr>"
  obtain m' cache' where l: "load_config_data fs now (?m, cache) = (m', cache')"
    by (cases "load_config_data fs now (?m, cache)")
  obtain e where "update_system_status now m' = (Inl e, m')"
    using update_system_status_raises by blast
  with l show ?thesis
    by (simp add: SystemManager_init_def)
qed

lemma load_config_data_cached:
  assumes "truthy (energy_profiles cache)" "truthy (cwu_schedule cache)"
    "truthy (system_config cache)" "truthy (user_corrections cache)"
  shows "snd (load_config_data fs now (m, cache)) = cache"
  using assms
  by (simp add: load_config_data_def Let_def accessor_energy_cached accessor_cwu_cached
      accessor_system_cached accessor_corrections_cached split: sum.splits)

lemma refresh_data_cached:
  assumes "truthy (energy_profiles cache)" "truthy (cwu_schedule cache)"
    "truthy (system_config cache)" "truthy (user_corrections cache)"
  shows "snd (snd (refresh_data fs now (m, cache))) = cache"
proof -
  obtain m' cache' where l: "load_config_data fs now (m, cache) = (m', cache')"
    by (cases "load_config_data fs now (m, cache)")
  with load_config_data_cached [OF assms, of fs now m] have "cache' = cache" by simp
  with l show ?thesis
    by (simp add: refresh_data_def split: prod.splits)
qed

lemma status_display_unbound:
  "call_method ''_get_day_type'' m now = Inr v \<Longrightarrow>
     status_display now m default_power = Inl AttributeError"
  by (simp add: status_display_def unbound_methods)

lemma get_day_type_tuesday:
  "get_day_type (manager_with (system_doc t)) (tuesday_noon\<lparr>hour := h\<rparr>) = Inr roboczy"
proof -
  have "strftime_m_d (tuesday_noon\<lparr>hour := h\<rparr>) = ''01-02''"
    and "strftime_Y_m_d (tuesday_noon\<lparr>hour := h\<rparr>) = ''2024-01-02''"
    and "weekday (tuesday_noon\<lparr>hour := h\<rparr>) = 1"
    by (simp_all add: strftime_m_d_def strftime_Y_m_d_def pad2_def pad4_def digit_def
        weekday_def toordinal_def days_before_year_def days_before_month_def is_leap_def
        tuesday_noon_def)
  with get_day_type_of_lists [OF holiday_lists_example, of t "tuesday_noon\<lparr>hour := h\<rparr>"]
  show ?thesis by simp
qed

lemma tuesday_23h_eq: "tuesday_23h = tuesday_noon\<lparr>hour := 23\<rparr>"
  by (simp add: tuesday_23h_def tuesday_noon_def)

lemma tuesday_noon_eq: "tuesday_noon = tuesday_noon\<lparr>hour := 12\<rparr>"
  by (simp add: tuesday_noon_def)

lemma update_system_status_tuesday:
  "fst (update_system_status (tuesday_noon\<lparr>hour := h\<rparr>) (manager_with (system_doc t))) =
     Inl AttributeError"
proof -
  let ?m = "manager_with (system_doc t)" and ?now = "tuesday_noon\<lparr>hour := h\<rparr>"
  have "call_method ''_get_day_type'' ?m ?now = Inr (PStr roboczy)"
    by (simp add: call_method_def timestamp_methods_def get_day_type_tuesday)
  then have "status_display ?now ?m default_power = Inl AttributeError" for default_power
    by (rule status_display_unbound)
  then show ?thesis
    by (simp add: update_system_status_def manager_with_def system_doc_def)
qed

lemma loaded_cache_truthy:
  "truthy (energy_profiles loaded_cache)" "truthy (cwu_schedule loaded_cache)"
  "truthy (system_config loaded_cache)" "truthy (user_corrections loaded_cache)"
  by (simp_all add: loaded_cache_def energy_doc_def cwu_doc_def system_doc_def
      corrections_doc_def)

lemma load_config_data_loaded_cache:
  "map_of (config_data (fst (load_config_data fs now (m, loaded_cache)))) ''system_config'' =
     Some (system_doc ''22:00-06:00'')"
  by (simp add: load_config_data_def Let_def accessor_energy_cached accessor_cwu_cached
      accessor_system_cached accessor_corrections_cached loaded_cache_truthy)
    (simp add: loaded_cache_def energy_doc_def)

text \<open>
  Claim C2 says that \<^verbatim>\<open>_get_current_tariff\<close> returns the cheaper band on a Sunday or
  holiday and otherwise decides by the hour band of \<^verbatim>\<open>cheaper_night_hours\<close>. The class
  binds no method of that name, so the call raises \<^verbatim>\<open>AttributeError\<close> for every object
  and timestamp; with \<^verbatim>\<open>22:00-06:00\<close> on Tuesday 2024-01-02 at 23 hours, a workday, the
  claim says cheaper and the status computation raises.
\<close>

theorem get_current_tariff_is_unbound:
  "call_method ''_get_current_tariff'' m dt = Inl AttributeError \<and>
   get_day_type (manager_with (system_doc ''22:00-06:00'')) tuesday_23h = Inr roboczy \<and>
   fst (update_system_status tuesday_23h (manager_with (system_doc ''22:00-06:00''))) =
     Inl AttributeError"
  using get_day_type_tuesday [of "''22:00-06:00''" 23]
    update_system_status_tuesday [of 23 "''22:00-06:00''"]
  by (simp add: unbound_methods tuesday_23h_eq)

text \<open>
  Claim C3 says that a malformed \<^verbatim>\<open>cheaper_night_hours\<close> never raises and gives the
  more expensive band. With the value \<^verbatim>\<open>garbage\<close> on Tuesday 2024-01-02 at noon, a
  workday, the tariff call and the status computation raise \<^verbatim>\<open>AttributeError\<close>.
\<close>

theorem malformed_tariff_raises:
  "get_day_type (manager_with (system_doc ''garbage'')) tuesday_noon = Inr roboczy \<and>
   call_method ''_get_current_tariff'' (manager_with (system_doc ''garbage'')) tuesday_noon =
     Inl AttributeError \<and>
   fst (update_system_status tuesday_noon (manager_with (system_doc ''garbage''))) =
     Inl AttributeError"
  using get_day_type_tuesday [of "''garbage''" 12]
    update_system_status_tuesday [of 12 "''garbage''"]
  by (simp add: unbound_methods tuesday_noon_eq [symmetric])

text \<open>
  Claim C7 says that a toggle sets the lock when enabling, leaves it when disabling,
  recomputes the snapshot and returns an acknowledgment. The two flags are assigned as
  the claim says; the call then raises in the status computation and returns no record.
\<close>

theorem toggle_cwu_boiler_never_acknowledges:
  "\<exists>e. toggle_cwu_boiler enabled now m =
     (Inl e, m\<lparr>cwu_boiler_enabled := Some enabled,
               heaters_locked := (if enabled then Some True else heaters_locked m)\<rparr>)"
  using toggle_cwu_boiler_result [of enabled now m] toggle_cwu_boiler_state [of enabled now m]
  by (cases "toggle_cwu_boiler enabled now m") auto

text \<open>
  Claim C8 says that every refresh reloads all documents from their sources, also when
  all are cached. With all four documents cached and a changed system configuration on
  disk, the refresh leaves the cache as it is and the view of the manager holds the old
  document, where a reload would have stored the new one.
\<close>

theorem refresh_data_serves_cached_documents:
  "snd (snd (refresh_data changed_files tuesday_noon
       (manager_with (system_doc ''22:00-06:00''), loaded_cache))) = loaded_cache \<and>
   system_config (snd (reload_all_configs changed_files tuesday_noon loaded_cache)) =
     system_doc ''13:00-15:00'' \<and>
   system_doc ''13:00-15:00'' \<noteq> system_doc ''22:00-06:00'' \<and>
   map_of (config_data (fst (snd (refresh_data changed_files tuesday_noon
       (manager_with (system_doc ''22:00-06:00''), loaded_cache))))) ''system_config'' =
     Some (system_doc ''22:00-06:00'')"
proof -
  let ?m = "manager_with (system_doc ''22:00-06:00'')"
  have cache: "snd (snd (refresh_data changed_files tuesday_noon (?m, loaded_cache))) = loaded_cache"
    by (rule refresh_data_cached [OF loaded_cache_truthy])
  have reload: "system_config (snd (reload_all_configs changed_files tuesday_noon loaded_cache)) =
      system_doc ''13:00-15:00''"
    by (simp add: reload_system_config loads_nonempty_def load_json_file_def changed_files_def
        files_eval system_doc_def)
  have differ: "system_doc ''13:00-15:00'' \<noteq> system_doc ''22:00-06:00''"
    by (simp add: system_doc_def)
  obtain m' cache' where l: "load_config_data changed_files tuesday_noon (?m, loaded_cache) = (m', cache')"
    by (cases "load_config_data changed_files tuesday_noon (?m, loaded_cache)")
  obtain e where u: "update_system_status tuesday_noon m' = (Inl e, m')"
    using update_system_status_raises by blast
  from l load_config_data_loaded_cache [of changed_files tuesday_noon ?m]
  have "map_of (config_data m') ''system_config'' = Some (system_doc ''22:00-06:00'')"
    by simp
  with l u have view: "map_of (config_data (fst (snd (refresh_data changed_files tuesday_noon
       (?m, loaded_cache))))) ''system_config'' = Some (system_doc ''22:00-06:00'')"
    by (simp add: refresh_data_def)
  from cache reload differ view show ?thesis by blast
qed

text \<open>
  Claim C9 says that the snapshot fields for the two operating flags equal the flags.
  In the status display both entries are string literals, whatever the flags are; and the
  toggle that clears the boiler flag leaves the stored snapshot as it was.
\<close>

theorem status_flags_are_literals:
  "map_of (status_record now rodzaj_dnia okno_dobowe taryfa config_loaded profiles
       morning_watts evening_watts) ''cwz_z_kotla'' = Some (PStr WL) \<and>
   map_of (status_record now rodzaj_dnia okno_dobowe taryfa config_loaded profiles
       morning_watts evening_watts) ''grzalki_zablokowane'' = Some (PStr ''TAK'') \<and>
   cwu_boiler_enabled (snd (toggle_cwu_boiler False now m)) = Some False \<and>
   system_status (snd (toggle_cwu_boiler False now m)) = system_status m"
  by (simp add: status_record_def toggle_cwu_boiler_state)

text \<open>
  Claim C10 says that construction sets \<^verbatim>\<open>heaters_locked\<close> to true. The constructor
  raises in the status computation, before the two flags are assigned, for every
  configuration and timestamp: no object is returned.
\<close>

theorem SystemManager_init_never_returns:
  "\<exists>e. fst (SystemManager_init fs now cache) = Inl e"
  by (rule SystemManager_init_raises)

text \<open>
  Independently of construction, no operation clears the lock of an object that has it
  set, whether the operation returns or raises.
\<close>

lemma perform_sets_no_unlock:
  "heaters_locked (fst (fold perform ops (m\<lparr>heaters_locked := Some True\<rparr>, cache))) = Some True"
  by (rule perform_all_keeps_lock) simp

section \<open>What the text of the tariff rule computes\<close>

lemma hour_of_bound_examples:
  "hour_of_bound ''22:00-06:00'' 0 = Inr 22"
  "hour_of_bound ''22:00-06:00'' 1 = Inr 6"
  "hour_of_bound ''garbage'' 0 = Inl ValueError"
  "hour_of_bound ''22-06'' 0 = Inr 22"
  "hour_of_bound ''22-06'' 1 = Inr 6"
  by code_simp+

lemma tariffs_distinct: "tansza \<noteq> drozsza"
  by (simp add: tansza_def drozsza_def)

lemma dedented_holiday:
  "get_day_type m dt = Inr niedziela_swieto \<Longrightarrow> get_current_tariff_dedented m dt = Inr tansza"
  by (simp add: get_current_tariff_dedented_def)

lemma dedented_band:
  assumes "get_day_type m dt = Inr day_type" and "day_type \<noteq> niedziela_swieto"
    and "map_of (config_data m) ''system_config'' = Some (PDict sysconf)"
    and "map_of sysconf ''tariff_g12w'' = Some (PDict tariff)"
    and "map_of tariff ''cheaper_night_hours'' = Some (PStr cheaper_night)"
    and "hour_of_bound cheaper_night 0 = Inr start_hour"
    and "hour_of_bound cheaper_night 1 = Inr end_hour"
  shows "get_current_tariff_dedented m dt =
     Inr (if (if start_hour > end_hour
              then int (hour dt) \<ge> start_hour \<or> int (hour dt) < end_hour
              else start_hour \<le> int (hour dt) \<and> int (hour dt) < end_hour)
          then tansza else drozsza)"
proof -
  from assms(4) have "sysconf \<noteq> []" by auto
  moreover from assms(6) have "cheaper_night \<noteq> []"
    by (auto simp: hour_of_bound_def index_def py_int_def)
  ultimately show ?thesis
    using assms by (simp add: get_current_tariff_dedented_def in_cheaper_band_def)
qed

lemma dedented_unparsed:
  assumes "get_day_type m dt = Inr day_type" and "day_type \<noteq> niedziela_swieto"
    and "map_of (config_data m) ''system_config'' = Some (PDict sysconf)"
    and "map_of sysconf ''tariff_g12w'' = Some (PDict tariff)"
    and "map_of tariff ''cheaper_night_hours'' = Some (PStr cheaper_night)"
    and "hour_of_bound cheaper_night 0 = Inl e \<or> hour_of_bound cheaper_night 1 = Inl e"
  shows "get_current_tariff_dedented m dt = Inr drozsza"
proof -
  from assms(4) have "sysconf \<noteq> []" by auto
  then show ?thesis
    using assms
    by (auto simp: get_current_tariff_dedented_def in_cheaper_band_def split: sum.splits)
qed


lemma dedented_string_returns:
  assumes "get_day_type m dt = Inr day_type"
    and "map_of (config_data m) ''system_config'' = Some (PDict sysconf)"
    and "map_of sysconf ''tariff_g12w'' = Some (PDict tariff)"
    and "map_of tariff ''cheaper_night_hours'' = Some (PStr cheaper_night)"
  shows "get_current_tariff_dedented m dt = Inr tansza \<or>
         get_current_tariff_dedented m dt = Inr drozsza"
proof -
  from assms(3) have "sysconf \<noteq> []" by auto
  then show ?thesis
    using assms
    by (auto simp: get_current_tariff_dedented_def in_cheaper_band_def split: sum.splits)
qed

lemma system_doc_tariff:
  "\<exists>sysconf. system_doc t = PDict sysconf \<and>
     map_of sysconf ''tariff_g12w'' = Some (PDict [(''cheaper_night_hours'', PStr t)])"
  by (simp add: system_doc_def)

lemma dedented_tuesday_band:
  assumes "hour_of_bound t 0 = Inr start_hour" and "hour_of_bound t 1 = Inr end_hour"
  shows "get_current_tariff_dedented (manager_with (system_doc t)) (tuesday_noon\<lparr>hour := h\<rparr>) =
     Inr (if (if start_hour > end_hour then int h \<ge> start_hour \<or> int h < end_hour
              else start_hour \<le> int h \<and> int h < end_hour)
          then tansza else drozsza)"
proof -
  obtain sysconf where doc: "system_doc t = PDict sysconf"
    and tariff: "map_of sysconf ''tariff_g12w'' = Some (PDict [(''cheaper_night_hours'', PStr t)])"
    using system_doc_tariff by blast
  have config: "map_of (config_data (manager_with (system_doc t))) ''system_config'' =
      Some (PDict sysconf)"
    by (simp add: manager_with_def doc)
  have night: "map_of [(''cheaper_night_hours'', PStr t)] ''cheaper_night_hours'' = Some (PStr t)"
    by simp
  from dedented_band [OF get_day_type_tuesday day_types_distinct(2) config tariff night assms]
  show ?thesis by simp
qed

lemma dedented_tuesday_unparsed:
  assumes "hour_of_bound t 0 = Inl e \<or> hour_of_bound t 1 = Inl e"
  shows "get_current_tariff_dedented (manager_with (system_doc t)) (tuesday_noon\<lparr>hour := h\<rparr>) =
     Inr drozsza"
proof -
  obtain sysconf where doc: "system_doc t = PDict sysconf"
    and tariff: "map_of sysconf ''tariff_g12w'' = Some (PDict [(''cheaper_night_hours'', PStr t)])"
    using system_doc_tariff by blast
  have config: "map_of (config_data (manager_with (system_doc t))) ''system_config'' =
      Some (PDict sysconf)"
    by (simp add: manager_with_def doc)
  have night: "map_of [(''cheaper_night_hours'', PStr t)] ''cheaper_night_hours'' = Some (PStr t)"
    by simp
  from dedented_unparsed [OF get_day_type_tuesday day_types_distinct(2) config tariff night assms]
  show ?thesis .
qed

lemma dedented_night_band:
  "get_current_tariff_dedented (manager_with (system_doc ''22:00-06:00''))
     (tuesday_noon\<lparr>hour := h\<rparr>) = Inr (if 22 \<le> h \<or> h < 6 then tansza else drozsza)"
  using dedented_tuesday_band [OF hour_of_bound_examples(1) hour_of_bound_examples(2), of h]
  by simp

lemma dedented_night_examples:
  "get_current_tariff_dedented (manager_with (system_doc ''22:00-06:00''))
     (tuesday_noon\<lparr>hour := 23\<rparr>) = Inr tansza"
  "get_current_tariff_dedented (manager_with (system_doc ''22:00-06:00''))
     (tuesday_noon\<lparr>hour := 3\<rparr>) = Inr tansza"
  "get_current_tariff_dedented (manager_with (system_doc ''22:00-06:00''))
     (tuesday_noon\<lparr>hour := 6\<rparr>) = Inr drozsza"
  "get_current_tariff_dedented (manager_with (system_doc ''22:00-06:00''))
     (tuesday_noon\<lparr>hour := 21\<rparr>) = Inr drozsza"
  by (simp_all add: dedented_night_band)

lemma dedented_garbage:
  "get_current_tariff_dedented (manager_with (system_doc ''garbage''))
     (tuesday_noon\<lparr>hour := h\<rparr>) = Inr drozsza"
  by (rule dedented_tuesday_unparsed [where e = ValueError])
    (simp add: hour_of_bound_examples)

lemma dedented_partly_malformed:
  "get_current_tariff_dedented (manager_with (system_doc ''22-06''))
     (tuesday_noon\<lparr>hour := 23\<rparr>) = Inr tansza"
  using dedented_tuesday_band [OF hour_of_bound_examples(4) hour_of_bound_examples(5), of 23]
  by simp


end
